theory Spec2Isabelle
  imports Main "HOL-Library.Log_Nat" "HOL-Library.Multiset"
begin

section \<open>Numbers\<close>

text \<open>
  Every JavaScript number is an IEEE-754 double. Two models are used.

  Amounts of currency (SOL, lamports, token balances, percentages) are exact rationals:
  the claims about them are equalities that the source computes with at most a few
  roundings, and the rounding error is not part of what is proved.

  The randomized delay is an integer computed by \<open>Math.floor\<close> from a product and a
  sum of doubles. Whether it lands on \<open>max\<close> or on \<open>max + 1\<close> is decided by the rounding
  of that sum, so there the rounding is written out: a double is a pair of an integer
  significand and a binary exponent, and every arithmetic result is rounded to 53
  significant bits, to nearest, ties to even. The exponent range (overflow, subnormals)
  is not modelled.
\<close>

datatype dbl = Dbl (mant: int) (expo: int)

definition dbl_val :: "dbl \<Rightarrow> rat" where
  "dbl_val d = (if 0 \<le> expo d then of_int (mant d * 2 ^ nat (expo d))
                else of_int (mant d) / of_int (2 ^ nat (- expo d)))"

definition round_shift :: "int \<Rightarrow> nat \<Rightarrow> int" where
  \<comment> \<open>\<open>m / 2 ^ k\<close> rounded to the nearest integer, ties to the even one\<close>
  "round_shift m k =
     (let q = m div 2 ^ k; r = m mod 2 ^ k
      in if 2 * r < 2 ^ k then q
         else if 2 ^ k < 2 * r then q + 1
         else if even q then q else q + 1)"

definition fl :: "int \<Rightarrow> int \<Rightarrow> dbl" where
  \<comment> \<open>the double nearest to \<open>m * 2 ^ e\<close>\<close>
  "fl m e = (let k = bitlen \<bar>m\<bar> - 53
             in if k \<le> 0 then Dbl m e else Dbl (round_shift m (nat k)) (e + k))"

fun dbl_mul :: "dbl \<Rightarrow> dbl \<Rightarrow> dbl" where
  "dbl_mul (Dbl m1 e1) (Dbl m2 e2) = fl (m1 * m2) (e1 + e2)"

fun dbl_add :: "dbl \<Rightarrow> dbl \<Rightarrow> dbl" where
  "dbl_add (Dbl m1 e1) (Dbl m2 e2) =
     (let e = min e1 e2 in fl (m1 * 2 ^ nat (e1 - e) + m2 * 2 ^ nat (e2 - e)) e)"

fun dbl_sub :: "dbl \<Rightarrow> dbl \<Rightarrow> dbl" where
  "dbl_sub (Dbl m1 e1) (Dbl m2 e2) =
     (let e = min e1 e2 in fl (m1 * 2 ^ nat (e1 - e) - m2 * 2 ^ nat (e2 - e)) e)"

fun dbl_floor :: "dbl \<Rightarrow> int" where
  \<comment> \<open>\<open>Math.floor\<close>\<close>
  "dbl_floor (Dbl m e) = (if 0 \<le> e then m * 2 ^ nat e else m div 2 ^ nat (- e))"

definition dbl_of_int :: "int \<Rightarrow> dbl" where
  "dbl_of_int n = fl n 0"

definition LAMPORTS_PER_SOL :: rat where
  "LAMPORTS_PER_SOL = 1000000000"

section \<open>Randomized delay (buyBot.js, sellBot.js)\<close>

text \<open>
  \<^verbatim>\<open>function getRandomDelay(min, max) {
      return Math.floor(Math.random() * (max - min + 1) + min); }\<close>
  The draw of \<open>Math.random()\<close> is the first argument: a double in \<open>[0, 1)\<close>.
\<close>

definition getRandomDelay :: "dbl \<Rightarrow> dbl \<Rightarrow> dbl \<Rightarrow> int" where
  "getRandomDelay random mn mx =
     dbl_floor (dbl_add (dbl_mul random (dbl_add (dbl_sub mx mn) (dbl_of_int 1))) mn)"

text \<open>The same expression in exact arithmetic, for comparison.\<close>

definition getRandomDelay_exact :: "rat \<Rightarrow> int \<Rightarrow> int \<Rightarrow> int" where
  "getRandomDelay_exact random mn mx = \<lfloor>random * of_int (mx - mn + 1) + of_int mn\<rfloor>"

section \<open>What a run observes and does\<close>

type_synonym pubkey = string
type_synonym signature = string

datatype js_error = JsError (error_name: string) (message: string)

text \<open>
  A console line is the template of the source with the values it interpolates.
  Colours are dropped, and so are the emoji of the "completed" lines.
\<close>

datatype arg = S string | N rat | I int | E js_error

record token_metadata =
  md_name :: string
  md_symbol :: string
  md_uri :: "string option"

record trade_request =
  req_publicKey :: pubkey
  req_action :: string
  req_tokenMetadata :: "token_metadata option"
  req_mint :: string
  req_denominatedInSol :: string
  req_amount :: rat
  req_slippage :: rat
  req_priorityFee :: rat
  req_pool :: string

record upload_form =
  form_name :: string
  form_symbol :: string
  form_description :: string
  form_twitter :: string
  form_telegram :: string
  form_website :: string
  form_showName :: string

datatype transaction =
    Legacy "(pubkey \<times> pubkey \<times> rat) list"
      \<comment> \<open>a \<open>Transaction\<close> with its transfer instructions: from, to, lamports\<close>
  | Versioned string
      \<comment> \<open>a \<open>VersionedTransaction\<close> deserialized from a quote\<close>

datatype event =
    Console_log string "arg list"
  | Console_error string "arg list"
  | Sleep int
  | Fetch_trade_local "trade_request list"
      \<comment> \<open>POST https://pumpportal.fun/api/trade-local\<close>
  | Fetch_ipfs upload_form
      \<comment> \<open>POST https://pump.fun/api/ipfs\<close>
  | Fetch_jito "string list"
      \<comment> \<open>POST https://mainnet.block-engine.jito.wtf/api/v1/bundles, method sendBundle\<close>
  | Tx_sign string "pubkey list"
      \<comment> \<open>\<open>tx.sign([...])\<close>: the transaction and the signers\<close>
  | SystemProgram_transfer pubkey pubkey rat
      \<comment> \<open>a transfer instruction is built: from, to, lamports\<close>
  | Rpc_sendTransaction transaction "pubkey list"
      \<comment> \<open>\<open>web3Connection.sendTransaction\<close>: the transaction and the signers passed\<close>

text \<open>
  The collaborators are outside the repository (the RPC node, the trade API, the key
  codec). What they answer during one per-wallet operation is an input of the model:
  \<open>Inl\<close> is a thrown error or a rejected promise.
\<close>

record wallet_io =
  fromSecretKey :: "js_error + pubkey"
    \<comment> \<open>\<open>Keypair.fromSecretKey(bs58.decode(walletPrivateKey))\<close>, its public key\<close>
  getBalance :: "js_error + rat"
    \<comment> \<open>lamports\<close>
  getLatestBlockhash :: "js_error + string"
  getFeeForMessage :: "js_error + rat"
    \<comment> \<open>lamports\<close>
  sendTransaction :: "js_error + signature"
  newPublicKey :: "js_error + pubkey"
    \<comment> \<open>\<open>new PublicKey(tokenAddress)\<close> in sell, \<open>new PublicKey(destinationPublicKey)\<close> in fund\<close>
  getParsedTokenAccountsByOwner :: "js_error + rat list"
    \<comment> \<open>\<open>value[k].account.data.parsed.info.tokenAmount.uiAmount\<close> of each account\<close>
  fetch_trade_local :: "js_error + int"
    \<comment> \<open>\<open>response.status\<close>\<close>
  deserialize :: "js_error + string"
    \<comment> \<open>\<open>VersionedTransaction.deserialize(new Uint8Array(await response.arrayBuffer()))\<close>\<close>

record wallet =
  name :: string
  publicKey :: pubkey
  amount :: rat

record delay_range =
  delay_min :: int
  delay_max :: int

record wallet_config =
  wallets :: "wallet list"
  delayRange :: delay_range

text \<open>What a batch run meets: the environment, the collaborators, the random draws.\<close>

record world =
  WALLET_PRIVATE_KEY :: "int \<Rightarrow> string option"
    \<comment> \<open>\<open>process.env[`WALLET_${n}_PRIVATE_KEY`]\<close>\<close>
  wallet_answers :: "nat \<Rightarrow> wallet_io"
    \<comment> \<open>what the collaborators answer during iteration \<open>i\<close> of the loop\<close>
  random :: "nat \<Rightarrow> dbl"
    \<comment> \<open>the \<open>k\<close>-th value returned by \<open>Math.random()\<close>\<close>

definition falsy :: "string option \<Rightarrow> bool" where
  \<comment> \<open>\<open>!process.env.X\<close>: the variable is unset or empty\<close>
  "falsy v \<longleftrightarrow> v = None \<or> v = Some []"

section \<open>Consolidate (consolidate.js)\<close>

definition getWalletBalance :: "js_error + rat \<Rightarrow> rat \<times> event list" where
  "getWalletBalance answer =
     (case answer of
        Inr balance \<Rightarrow> (balance / LAMPORTS_PER_SOL, [])
      | Inl error \<Rightarrow>
          (0, [Console_error ''Error fetching balance: ${error.message}'' [S (message error)]]))"

definition consolidateWallet_catch :: "int \<Rightarrow> js_error \<Rightarrow> event" where
  "consolidateWallet_catch walletIndex error =
     Console_error ''Error consolidating wallet ${walletIndex + 1}:''
       [I (walletIndex + 1), S (message error)]"

definition consolidateWallet ::
  "(int \<Rightarrow> string option) \<Rightarrow> wallet_io \<Rightarrow> int \<Rightarrow> pubkey \<Rightarrow> rat \<times> event list" where
  "consolidateWallet env io walletIndex baseWalletPublicKey =
     (if falsy (env (walletIndex + 1)) then
        (0, [Console_log ''Skipping wallet ${walletIndex + 1} - No private key found''
               [I (walletIndex + 1)]])
      else case fromSecretKey io of
        Inl error \<Rightarrow> (0, [consolidateWallet_catch walletIndex error])
      | Inr walletKeypair \<Rightarrow>
          let (balance, ev1) = getWalletBalance (getBalance io) in
          if balance \<le> 0 then
            (0, ev1 @ [Console_log ''Skipping wallet ${walletIndex + 1} - No balance''
                         [I (walletIndex + 1)]])
          else
            let ev2 = ev1 @
                  [Console_log ''Processing Wallet ${walletIndex + 1}'' [I (walletIndex + 1)],
                   Console_log ''Address: '' [S walletKeypair],
                   Console_log ''Balance: ${balance} SOL'' [N balance]]
            in case getLatestBlockhash io of
              Inl error \<Rightarrow> (0, ev2 @ [consolidateWallet_catch walletIndex error])
            | Inr blockhash \<Rightarrow>
                (case getFeeForMessage io of
                   Inl error \<Rightarrow> (0, ev2 @ [consolidateWallet_catch walletIndex error])
                 | Inr fee \<Rightarrow>
                     let lamports = balance * LAMPORTS_PER_SOL - fee;
                         ev3 = ev2 @
                           [SystemProgram_transfer walletKeypair baseWalletPublicKey lamports,
                            Rpc_sendTransaction
                              (Legacy [(walletKeypair, baseWalletPublicKey, lamports)])
                              [walletKeypair]]
                     in case sendTransaction io of
                       Inl error \<Rightarrow> (0, ev3 @ [consolidateWallet_catch walletIndex error])
                     | Inr signature \<Rightarrow>
                         ((balance * LAMPORTS_PER_SOL - fee) / LAMPORTS_PER_SOL,
                          ev3 @
                          [Console_log ''Transfer successful!'' [],
                           Console_log ''Amount: ${(balance * LAMPORTS_PER_SOL - fee) / LAMPORTS_PER_SOL} SOL''
                             [N ((balance * LAMPORTS_PER_SOL - fee) / LAMPORTS_PER_SOL)],
                           Console_log ''Transaction: https://solscan.io/tx/${signature}''
                             [S signature]])))"

text \<open>
  \<open>main\<close> of consolidate.js. The identifiers are resolved as JavaScript resolves
  them: a \<open>const\<close> belongs to the block that declares it. \<open>baseWalletPublicKey\<close>
  is declared in the block of the inner \<open>try\<close> (line 127), which ends at line 128; the
  loop at line 140 is in the block of the outer \<open>try\<close>, whose scope chain holds what
  that block, the function and the module declare.
\<close>

datatype js_value = Pubkey pubkey | Other

type_synonym scope = "(string \<times> js_value) list"

definition module_scope :: scope where
  \<comment> \<open>the imports and the top-level declarations of consolidate.js\<close>
  "module_scope = map (\<lambda>x. (x, Other))
     [''inquirer'', ''chalk'', ''figlet'', ''clear'', ''dotenv'', ''Connection'', ''Keypair'',
      ''PublicKey'', ''LAMPORTS_PER_SOL'', ''Transaction'', ''SystemProgram'', ''bs58'',
      ''walletConfig'', ''RPC_ENDPOINT'', ''web3Connection'', ''getWalletBalance'',
      ''consolidateWallet'', ''questions'', ''getQuestionMessage'', ''main'']"

definition outer_try_scope :: scope where
  \<comment> \<open>the block of the outer \<open>try\<close> of \<open>main\<close>, inside the loop body\<close>
  "outer_try_scope =
     map (\<lambda>x. (x, Other)) [''amountSent'', ''i'', ''totalConsolidated'', ''answers'']
     @ module_scope"

definition inner_try_scope :: "pubkey \<Rightarrow> scope" where
  \<comment> \<open>the block of the inner \<open>try\<close>, lines 126 to 128\<close>
  "inner_try_scope pk = (''baseWalletPublicKey'', Pubkey pk) # outer_try_scope"

definition resolve :: "scope \<Rightarrow> string \<Rightarrow> js_error + js_value" where
  "resolve sc x =
     (case map_of sc x of
        None \<Rightarrow> Inl (JsError ''ReferenceError'' (x @ '' is not defined''))
      | Some v \<Rightarrow> Inr v)"

record consolidate_world = world +
  BASE_WALLET_ADDRESS :: "string option"
  new_PublicKey_base :: "js_error + pubkey"
    \<comment> \<open>\<open>new PublicKey(process.env.BASE_WALLET_ADDRESS)\<close>\<close>
  prompt_confirm :: "js_error + bool"
    \<comment> \<open>\<open>(await inquirer.prompt(questions)).confirm\<close>\<close>

function consolidate_loop ::
  "'a consolidate_world_scheme \<Rightarrow> scope \<Rightarrow> nat \<Rightarrow> nat \<Rightarrow> rat \<Rightarrow> (js_error + rat) \<times> event list" where
  "consolidate_loop w sc n i totalConsolidated =
     (if i < n then
        (case resolve sc ''baseWalletPublicKey'' of
           Inl error \<Rightarrow> (Inl error, [])
         | Inr Other \<Rightarrow>
             \<comment> \<open>no scope of this file binds the name to anything but a public key\<close>
             (Inl (JsError ''TypeError'' ''not a PublicKey''), [])
         | Inr (Pubkey baseWalletPublicKey) \<Rightarrow>
             let (amountSent, ev) =
                   consolidateWallet (WALLET_PRIVATE_KEY w) (wallet_answers w i) (int i)
                     baseWalletPublicKey;
                 (r, evs) = consolidate_loop w sc n (Suc i) (totalConsolidated + amountSent)
             in (r, ev @ evs))
      else (Inr totalConsolidated, []))"
  by pat_completeness auto
termination
  by (relation "measure (\<lambda>(w, sc, n, i, t). n - i)") auto

declare consolidate_loop.simps [simp del]

definition consolidate_main ::
  "'a consolidate_world_scheme \<Rightarrow> wallet_config \<Rightarrow> event list" where
  "consolidate_main w walletConfig =
     (if falsy (BASE_WALLET_ADDRESS w) then
        [Console_error ''BASE_WALLET_ADDRESS not found in .env file'' []]
      else case new_PublicKey_base w of
        Inl error \<Rightarrow>
          [Console_error
             ''Invalid BASE_WALLET_ADDRESS in .env file. Please provide a valid Solana address.'' []]
      | Inr baseWalletPublicKey \<Rightarrow>
          \<comment> \<open>the binding lives in \<open>inner_try_scope baseWalletPublicKey\<close>, left here\<close>
          (case prompt_confirm w of
             Inl error \<Rightarrow> [Console_error ''An error occurred:'' [E error]]
           | Inr confirm \<Rightarrow>
               if confirm then
                 Console_log ''Starting consolidation process...'' [] #
                 (case consolidate_loop w outer_try_scope (length (wallets walletConfig)) 0 0 of
                    (Inl error, evs) \<Rightarrow> evs @ [Console_error ''An error occurred:'' [E error]]
                  | (Inr totalConsolidated, evs) \<Rightarrow>
                      evs @
                      [Console_log ''Consolidation completed!'' [],
                       Console_log ''Total SOL consolidated: ${totalConsolidated.toFixed(4)} SOL''
                         [N totalConsolidated]])
               else [Console_log ''Operation cancelled'' []]))"

section \<open>Buy (buyBot.js)\<close>

record base_params =
  percentToSell :: rat
    \<comment> \<open>read by sell only; buy passes an object without it, here with 0\<close>
  slippage :: rat
  priorityFee :: rat

definition wallet_catch :: "wallet \<Rightarrow> js_error \<Rightarrow> event" where
  \<comment> \<open>the \<open>catch\<close> of \<open>executeBuyWithWallet\<close> and of \<open>executeSellWithWallet\<close>\<close>
  "wallet_catch walletInfo error =
     Console_error ''Error with ${walletInfo.name}:'' [S (name walletInfo), S (message error)]"

definition wallet_success :: "wallet \<Rightarrow> signature \<Rightarrow> event list" where
  "wallet_success walletInfo signature =
     [Console_log ''Success! ${walletInfo.name}'' [S (name walletInfo)],
      Console_log ''Transaction: https://solscan.io/tx/${signature}'' [S signature]]"

definition executeBuyWithWallet ::
  "(int \<Rightarrow> string option) \<Rightarrow> wallet_io \<Rightarrow> int \<Rightarrow> string \<Rightarrow> wallet \<Rightarrow> 'a base_params_scheme
     \<Rightarrow> signature option \<times> event list" where
  "executeBuyWithWallet env io walletIndex tokenAddress walletInfo baseParams =
     (if falsy (env (walletIndex + 1)) then
        (None, [Console_log ''Skipping wallet ${walletIndex + 1} - No private key found''
                  [I (walletIndex + 1)]])
      else
        let ev0 = [Console_log ''Executing buy with ${walletInfo.name} (${walletInfo.amount} SOL)...''
                     [S (name walletInfo), N (amount walletInfo)]]
        in case fromSecretKey io of
          Inl error \<Rightarrow> (None, ev0 @ [wallet_catch walletInfo error])
        | Inr signerKeyPair \<Rightarrow>
            let ev1 = ev0 @
                  [Fetch_trade_local
                     [\<lparr>req_publicKey = signerKeyPair, req_action = ''buy'',
                       req_tokenMetadata = None, req_mint = tokenAddress,
                       req_denominatedInSol = ''true'', req_amount = amount walletInfo,
                       req_slippage = slippage baseParams,
                       req_priorityFee = priorityFee baseParams, req_pool = ''pump''\<rparr>]]
            in case fetch_trade_local io of
              Inl error \<Rightarrow> (None, ev1 @ [wallet_catch walletInfo error])
            | Inr status \<Rightarrow>
                if status = 200 then
                  (case deserialize io of
                     Inl error \<Rightarrow> (None, ev1 @ [wallet_catch walletInfo error])
                   | Inr tx \<Rightarrow>
                       let ev2 = ev1 @
                             [Tx_sign tx [signerKeyPair], Rpc_sendTransaction (Versioned tx) []]
                       in case sendTransaction io of
                         Inl error \<Rightarrow> (None, ev2 @ [wallet_catch walletInfo error])
                       | Inr signature \<Rightarrow>
                           (Some signature, ev2 @ wallet_success walletInfo signature))
                else (None, ev1))"








section \<open>Sell (sellBot.js)\<close>

definition executeSellWithWallet ::
  "(int \<Rightarrow> string option) \<Rightarrow> wallet_io \<Rightarrow> int \<Rightarrow> string \<Rightarrow> wallet \<Rightarrow> 'a base_params_scheme
     \<Rightarrow> signature option \<times> event list" where
  "executeSellWithWallet env io walletIndex tokenAddress walletInfo baseParams =
     (if falsy (env (walletIndex + 1)) then
        (None, [Console_log ''Skipping wallet ${walletIndex + 1} - No private key found''
                  [I (walletIndex + 1)]])
      else
        let ev0 = [Console_log ''Executing sell with ${walletInfo.name}...'' [S (name walletInfo)]]
        in case fromSecretKey io of
          Inl error \<Rightarrow> (None, ev0 @ [wallet_catch walletInfo error])
        | Inr walletPublicKey \<Rightarrow>
        (case newPublicKey io of
          Inl error \<Rightarrow> (None, ev0 @ [wallet_catch walletInfo error])
        | Inr mint \<Rightarrow>
        (case getParsedTokenAccountsByOwner io of
          Inl error \<Rightarrow> (None, ev0 @ [wallet_catch walletInfo error])
        | Inr [] \<Rightarrow>
            (None, ev0 @ [Console_log ''No token balance found for ${walletInfo.name}''
                            [S (name walletInfo)]])
        | Inr (tokenBalance # others) \<Rightarrow>
            let ev1 = ev0 @ [Console_log ''Current Balance: '' [N tokenBalance]];
                amountToSell =
                  (if percentToSell baseParams = 100 then tokenBalance
                   else tokenBalance * percentToSell baseParams / 100)
            in if amountToSell \<le> 0 then
                 (None, ev1 @ [Console_log ''Insufficient balance for ${walletInfo.name}''
                                 [S (name walletInfo)]])
               else
                 let ev2 = ev1 @
                       [Fetch_trade_local
                          [\<lparr>req_publicKey = walletPublicKey, req_action = ''sell'',
                            req_tokenMetadata = None, req_mint = tokenAddress,
                            req_denominatedInSol = ''false'', req_amount = amountToSell,
                            req_slippage = slippage baseParams,
                            req_priorityFee = priorityFee baseParams, req_pool = ''pump''\<rparr>]]
                 in case fetch_trade_local io of
                   Inl error \<Rightarrow> (None, ev2 @ [wallet_catch walletInfo error])
                 | Inr status \<Rightarrow>
                     if status = 200 then
                       (case deserialize io of
                          Inl error \<Rightarrow> (None, ev2 @ [wallet_catch walletInfo error])
                        | Inr tx \<Rightarrow>
                            let ev3 = ev2 @
                                  [Tx_sign tx [walletPublicKey],
                                   Rpc_sendTransaction (Versioned tx) []]
                            in case sendTransaction io of
                              Inl error \<Rightarrow> (None, ev3 @ [wallet_catch walletInfo error])
                            | Inr signature \<Rightarrow>
                                (Some signature, ev3 @ wallet_success walletInfo signature))
                     else (None, ev2))))"





fun findIndex :: "('a \<Rightarrow> bool) \<Rightarrow> 'a list \<Rightarrow> int" where
  \<comment> \<open>\<open>Array.prototype.findIndex\<close>: the first index whose element satisfies \<open>P\<close>, or \<open>-1\<close>\<close>
  "findIndex P [] = - 1"
| "findIndex P (x # xs) =
     (if P x then 0 else let k = findIndex P xs in if k < 0 then - 1 else k + 1)"





section \<open>Fund wallets (fundWallets.js)\<close>

text \<open>
  The three files \<open>generateAndSaveWallets\<close> writes. The backup file is absent, or holds
  something \<open>JSON.parse\<close> rejects, or holds an object from timestamps to batches (a
  file holding JSON that is not an object is not considered). Of \<open>.env\<close> the
  \<open>WALLET_n_PRIVATE_KEY\<close> lines are kept, by \<open>n\<close>; \<open>None\<close> is a missing file. Writing a
  file succeeds.
\<close>

record batch =
  batch_privateKeys :: "(int \<times> string) list"
    \<comment> \<open>\<open>WALLET_${n}_PRIVATE_KEY\<close> and the encoded secret key, by \<open>n\<close>\<close>
  walletPublicKeys :: "pubkey list"

datatype backup_file = Absent | Unreadable | Parsed "string \<rightharpoonup> batch"

record files =
  wallets_json :: "wallet_config option"
  private_keys_backup_json :: backup_file
  dotenv :: "(int \<rightharpoonup> string) option"

text \<open>The decimal digits a template literal writes for a non-negative integer.\<close>

function to_decimal :: "nat \<Rightarrow> string \<Rightarrow> string" where
  "to_decimal n digits =
     (let digits' = (''0123456789'' ! (n mod 10)) # digits
      in if n < 10 then digits' else to_decimal (n div 10) digits')"
  by pat_completeness auto
termination
  by (relation "measure fst") auto

declare to_decimal.simps [simp del]

definition generateAndSaveWallets ::
  "files \<Rightarrow> (nat \<Rightarrow> pubkey \<times> string) \<Rightarrow> string \<Rightarrow> nat
     \<Rightarrow> (js_error + wallet list \<times> (int \<times> string) list) \<times> files \<times> event list" where
  "generateAndSaveWallets fs generate timestamp numberOfWallets =
     (let wallets' = map (\<lambda>i. \<lparr>name = ''Wallet '' @ to_decimal (i + 1) [],
                                publicKey = fst (generate i), amount = 0\<rparr>)
                       [0 ..< numberOfWallets];
          privateKeys = map (\<lambda>i. (int i + 1, snd (generate i))) [0 ..< numberOfWallets];
          fs1 = fs\<lparr>wallets_json :=
                    Some \<lparr>wallets = wallets',
                          delayRange = \<lparr>delay_min = 100, delay_max = 1000\<rparr>\<rparr>\<rparr>;
          (existingPrivateKeys, ev) =
             (case private_keys_backup_json fs1 of
                Absent \<Rightarrow> (Map.empty, [])
              | Parsed m \<Rightarrow> (m, [])
              | Unreadable \<Rightarrow>
                  (Map.empty,
                   [Console_log ''No existing private keys backup found, creating new one.'' []]));
          fs2 = fs1\<lparr>private_keys_backup_json :=
                     Parsed (existingPrivateKeys
                       (timestamp \<mapsto> \<lparr>batch_privateKeys = privateKeys,
                                      walletPublicKeys = map publicKey wallets'\<rparr>))\<rparr>
      in case dotenv fs2 of
           None \<Rightarrow> (Inl (JsError ''Error'' ''ENOENT: no such file or directory, open .env''),
                    fs2, ev)
         | Some envContent \<Rightarrow>
             (Inr (wallets', privateKeys),
              fs2\<lparr>dotenv := Some (envContent ++ map_of privateKeys)\<rparr>, ev))"



definition fundWallet ::
  "wallet_io \<Rightarrow> pubkey \<Rightarrow> pubkey \<Rightarrow> rat \<Rightarrow> (js_error + signature) \<times> event list" where
  "fundWallet io sourceKeypair destinationPublicKey amount' =
     (case newPublicKey io of
        Inl error \<Rightarrow> (Inl error, [])
      | Inr toPubkey \<Rightarrow>
          let lamports = of_int \<lfloor>amount' * LAMPORTS_PER_SOL\<rfloor>;
              ev = [SystemProgram_transfer sourceKeypair toPubkey lamports,
                    Rpc_sendTransaction (Legacy [(sourceKeypair, toPubkey, lamports)])
                      [sourceKeypair]]
          in case sendTransaction io of
               Inl error \<Rightarrow> (Inl error, ev)
             | Inr signature \<Rightarrow> (Inr signature, ev))"

definition fund_body :: "wallet_io \<Rightarrow> pubkey \<Rightarrow> rat \<Rightarrow> wallet \<Rightarrow> bool \<times> event list" where
  \<comment> \<open>the \<open>try\<close> and \<open>catch\<close> in the body of the \<open>for\<close> loop: whether
      \<open>totalFunded += parseFloat(answers.solPerWallet)\<close> was reached, and what was done\<close>
  "fund_body io fundingWallet solPerWallet wallet =
     (let ev0 = [Console_log ''Funding ${wallet.name}...'' [S (name wallet)]]
      in case fundWallet io fundingWallet (publicKey wallet) solPerWallet of
           (Inr signature, ev) \<Rightarrow>
             (True,
              ev0 @ ev @
              [Console_log ''Transfer successful!'' [],
               Console_log ''Amount: ${answers.solPerWallet} SOL'' [N solPerWallet],
               Console_log ''Transaction: https://solscan.io/tx/${signature}'' [S signature]])
         | (Inl error, ev) \<Rightarrow>
             (False,
              ev0 @ ev @
              [Console_error ''Error funding ${wallet.name}:''
                 [S (name wallet), S (message error)]]))"

fun fund_loop ::
  "(nat \<Rightarrow> wallet_io) \<Rightarrow> pubkey \<Rightarrow> rat \<Rightarrow> nat \<Rightarrow> wallet list \<Rightarrow> rat \<Rightarrow> rat \<times> event list" where
  "fund_loop answers fundingWallet solPerWallet k [] totalFunded = (totalFunded, [])"
| "fund_loop answers fundingWallet solPerWallet k (wallet # rest) totalFunded =
     (let (funded, ev) = fund_body (answers k) fundingWallet solPerWallet wallet;
          (totalFunded', evs) =
            fund_loop answers fundingWallet solPerWallet (Suc k) rest
              (if funded then totalFunded + solPerWallet else totalFunded)
      in (totalFunded', ev @ evs))"

record fund_world = world +
  generate :: "nat \<Rightarrow> pubkey \<times> string"
    \<comment> \<open>the \<open>i\<close>-th \<open>Keypair.generate()\<close>: public key, encoded secret key\<close>
  now :: string
    \<comment> \<open>\<open>new Date().toISOString()\<close>\<close>
  FUNDING_WALLET_PRIVATE_KEY :: "string option"
  prompt_answers :: "js_error + nat \<times> rat"
    \<comment> \<open>\<open>parseInt(answers.numberOfWallets)\<close> and \<open>parseFloat(answers.solPerWallet)\<close>\<close>
  fromSecretKey_funding :: "js_error + pubkey"

definition fundWallets_main :: "'a fund_world_scheme \<Rightarrow> files \<Rightarrow> files \<times> event list" where
  "fundWallets_main w fs =
     (if falsy (FUNDING_WALLET_PRIVATE_KEY w) then
        (fs, [Console_error ''FUNDING_WALLET_PRIVATE_KEY not found in .env file'' []])
      else case prompt_answers w of
        Inl error \<Rightarrow> (fs, [Console_error ''An error occurred:'' [E error]])
      | Inr (numberOfWallets, solPerWallet) \<Rightarrow>
          let ev0 = [Console_log ''Generating wallets...'' []]
          in case generateAndSaveWallets fs (generate w) (now w) numberOfWallets of
               (Inl error, fs', ev) \<Rightarrow>
                 (fs', ev0 @ ev @ [Console_error ''An error occurred:'' [E error]])
             | (Inr (wallets', privateKeys), fs', ev) \<Rightarrow>
                 let ev1 = ev0 @ ev @
                       [Console_log ''Wallets generated and saved!'' [],
                        Console_log ''Starting funding process...'' []]
                 in case fromSecretKey_funding w of
                      Inl error \<Rightarrow> (fs', ev1 @ [Console_error ''An error occurred:'' [E error]])
                    | Inr fundingWallet \<Rightarrow>
                        let (totalFunded, evs) =
                              fund_loop (wallet_answers w) fundingWallet solPerWallet 0 wallets' 0
                        in (fs', ev1 @ evs @
                              [Console_log ''Funding completed!'' [],
                               Console_log ''Total SOL distributed: ${totalFunded.toFixed(4)} SOL''
                                 [N totalFunded]]))"

section \<open>Token creation (createToken.js)\<close>

record token_data =
  tokenName :: string
  tokenSymbol :: string
  tokenDescription :: string
  xLink :: string
  telegramLink :: string
  websiteLink :: string
  imagePath :: string
  token_amount :: rat

record upload_response =
  upload_status :: int
    \<comment> \<open>\<open>metadataResponse.status\<close>; the source never reads it\<close>
  upload_json :: "js_error + string option"
    \<comment> \<open>\<open>(await metadataResponse.json()).metadataUri\<close>, \<open>None\<close> when the property is missing\<close>

record quote_response =
  quote_status :: int
  quote_statusText :: string
  quote_json :: "js_error + string list"

record create_world =
  fromSecretKey_A :: "js_error + pubkey"
    \<comment> \<open>\<open>Keypair.fromSecretKey(bs58.decode(process.env.WALLET_A_PRIVATE_KEY))\<close>\<close>
  fromSecretKey_B :: "js_error + pubkey"
  mintKeypair :: pubkey
    \<comment> \<open>\<open>Keypair.generate()\<close>\<close>
  openAsBlob :: "js_error + unit"
  fetch_ipfs :: "js_error + upload_response"
  fetch_quote :: "js_error + quote_response"
  deserialize_tx :: "string \<Rightarrow> js_error + string"
    \<comment> \<open>\<open>VersionedTransaction.deserialize(new Uint8Array(bs58.decode(transactions[i])))\<close>\<close>
  tx_serialize :: "string \<Rightarrow> string"
    \<comment> \<open>\<open>bs58.encode(tx.serialize())\<close> of the signed transaction\<close>
  tx_signature :: "string \<Rightarrow> string"
    \<comment> \<open>\<open>bs58.encode(tx.signatures[0])\<close> of the signed transaction\<close>
  fetch_jito :: "js_error + unit"

definition createTokenBundle_catch ::
  "event list \<Rightarrow> js_error \<Rightarrow> (js_error + string list \<times> pubkey) \<times> event list" where
  \<comment> \<open>\<open>catch (error) { console.error('Error creating token:', error); throw error; }\<close>\<close>
  "createTokenBundle_catch ev error =
     (Inl error, ev @ [Console_error ''Error creating token:'' [E error]])"

fun sign_loop ::
  "'a create_world_scheme \<Rightarrow> pubkey list \<Rightarrow> string list \<Rightarrow> nat \<Rightarrow> trade_request list
     \<Rightarrow> string list \<Rightarrow> string list \<Rightarrow> (js_error + string list \<times> string list) \<times> event list" where
  "sign_loop w signerKeyPairs transactions i [] encodedSignedTransactions signatures =
     (Inr (encodedSignedTransactions, signatures), [])"
| "sign_loop w signerKeyPairs transactions i (args # rest) encodedSignedTransactions signatures =
     (if i < length transactions then
        (case deserialize_tx w (transactions ! i) of
           Inl error \<Rightarrow> (Inl error, [])
         | Inr tx \<Rightarrow>
             let ev = [Tx_sign tx
                         (if req_action args = ''create''
                          then [mintKeypair w, signerKeyPairs ! i]
                          else [signerKeyPairs ! i])];
                 (r, evs) = sign_loop w signerKeyPairs transactions (Suc i) rest
                              (encodedSignedTransactions @ [tx_serialize w tx])
                              (signatures @ [tx_signature w tx])
             in (r, ev @ evs))
      else (Inl (JsError ''TypeError'' ''transactions[i] is undefined''), []))"

definition createTokenBundle ::
  "'a create_world_scheme \<Rightarrow> 'b token_data_scheme
     \<Rightarrow> (js_error + string list \<times> pubkey) \<times> event list" where
  "createTokenBundle w tokenData =
     (let ev0 = [Console_log ''Preparing to create token...'' []]
      in case fromSecretKey_A w of
        Inl error \<Rightarrow> createTokenBundle_catch ev0 error
      | Inr signerA \<Rightarrow>
      (case fromSecretKey_B w of
        Inl error \<Rightarrow> createTokenBundle_catch ev0 error
      | Inr signerB \<Rightarrow>
      (case openAsBlob w of
        Inl error \<Rightarrow> createTokenBundle_catch ev0 error
      | Inr blob \<Rightarrow>
      let signerKeyPairs = [signerA, signerB];
          ev1 = ev0 @
            [Console_log ''Uploading metadata to IPFS...'' [],
             Fetch_ipfs \<lparr>form_name = tokenName tokenData, form_symbol = tokenSymbol tokenData,
                         form_description = tokenDescription tokenData,
                         form_twitter = xLink tokenData, form_telegram = telegramLink tokenData,
                         form_website = websiteLink tokenData, form_showName = ''true''\<rparr>]
      in case fetch_ipfs w of
        Inl error \<Rightarrow> createTokenBundle_catch ev1 error
      | Inr metadataResponse \<Rightarrow>
      (case upload_json metadataResponse of
        Inl error \<Rightarrow> createTokenBundle_catch ev1 error
      | Inr metadataUri \<Rightarrow>
      let bundledTxArgs =
            [\<lparr>req_publicKey = signerA, req_action = ''create'',
              req_tokenMetadata =
                Some \<lparr>md_name = tokenName tokenData, md_symbol = tokenSymbol tokenData,
                      md_uri = metadataUri\<rparr>,
              req_mint = mintKeypair w, req_denominatedInSol = ''false'',
              req_amount = token_amount tokenData, req_slippage = 10,
              req_priorityFee = 1 / 10000, req_pool = ''pump''\<rparr>,
             \<lparr>req_publicKey = signerB, req_action = ''buy'', req_tokenMetadata = None,
              req_mint = mintKeypair w, req_denominatedInSol = ''false'',
              req_amount = token_amount tokenData, req_slippage = 10,
              req_priorityFee = 5 / 100000, req_pool = ''pump''\<rparr>];
          ev2 = ev1 @
            [Console_log ''Generating transactions...'' [], Fetch_trade_local bundledTxArgs]
      in case fetch_quote w of
        Inl error \<Rightarrow> createTokenBundle_catch ev2 error
      | Inr response \<Rightarrow>
          if quote_status response = 200 then
            (case quote_json response of
               Inl error \<Rightarrow> createTokenBundle_catch ev2 error
             | Inr transactions \<Rightarrow>
                 let ev3 = ev2 @ [Console_log ''Signing transactions...'' []]
                 in case sign_loop w signerKeyPairs transactions 0 bundledTxArgs [] [] of
                      (Inl error, evs) \<Rightarrow> createTokenBundle_catch (ev3 @ evs) error
                    | (Inr (encodedSignedTransactions, signatures), evs) \<Rightarrow>
                        let ev4 = ev3 @ evs @
                              [Console_log ''Submitting bundle to Jito...'' [],
                               Fetch_jito encodedSignedTransactions]
                        in case fetch_jito w of
                             Inl error \<Rightarrow> createTokenBundle_catch ev4 error
                           | Inr jitoResponse \<Rightarrow>
                               (Inr (signatures, mintKeypair w),
                                ev4 @
                                [Console_log ''Token created successfully!'' [],
                                 Console_log ''=== Transaction Details ==='' []]
                                @ map (\<lambda>(i, sg).
                                     Console_log
                                       ''Transaction ${i}: https://solscan.io/tx/${signatures[i]}''
                                       [I (int i), S sg])
                                    (zip [0 ..< length signatures] signatures)))
          else
            createTokenBundle_catch ev2
              (JsError ''Error''
                 (''Failed to generate transactions: '' @ quote_statusText response))))))"

section \<open>Concrete inputs\<close>

text \<open>The largest value below 1 on the grid of multiples of \<open>2 ^ - 52\<close>.\<close>

definition draw_near_one :: dbl where
  "draw_near_one = Dbl (2 ^ 52 - 1) (- 52)"

text \<open>Answers of the collaborators with which every step of every operation succeeds.\<close>

definition io_ok :: wallet_io where
  "io_ok = \<lparr>fromSecretKey = Inr ''Wallet1Pubkey'', getBalance = Inr 2000000000,
            getLatestBlockhash = Inr ''blockhash'', getFeeForMessage = Inr 5000,
            sendTransaction = Inr ''signature1'', newPublicKey = Inr ''MintPubkey'',
            getParsedTokenAccountsByOwner = Inr [8], fetch_trade_local = Inr 200,
            deserialize = Inr ''tx1''\<rparr>"

definition rpc_down :: js_error where
  "rpc_down = JsError ''Error'' ''fetch failed''"

text \<open>
  A consolidate run over two wallets: the first has no private key in the environment, the
  second has one and holds 2 SOL.
\<close>

definition consolidate_world_mixed :: consolidate_world where
  "consolidate_world_mixed =
     \<lparr>WALLET_PRIVATE_KEY = (\<lambda>n. if n = 1 then None else Some ''secret''),
      wallet_answers = (\<lambda>i. io_ok), random = (\<lambda>k. Dbl 0 0),
      BASE_WALLET_ADDRESS = Some ''Base'', new_PublicKey_base = Inr ''Base'',
      prompt_confirm = Inr True\<rparr>"

definition wallet1 :: wallet where
  "wallet1 = \<lparr>name = ''Wallet 1'', publicKey = ''Wallet1Pubkey'', amount = 1\<rparr>"

definition wallet2 :: wallet where
  "wallet2 = \<lparr>name = ''Wallet 2'', publicKey = ''Wallet2Pubkey'', amount = 2\<rparr>"



definition config2 :: wallet_config where
  "config2 = \<lparr>wallets = [wallet1, wallet2],
              delayRange = \<lparr>delay_min = 100, delay_max = 1000\<rparr>\<rparr>"



definition params :: base_params where
  "params = \<lparr>percentToSell = 100, slippage = 10, priorityFee = 1 / 100000\<rparr>"







section \<open>The randomized delay\<close>

lemma getRandomDelay_exact_in_range:
  assumes "0 \<le> r" and "r < 1" and "mn \<le> mx"
  shows "mn \<le> getRandomDelay_exact r mn mx \<and> getRandomDelay_exact r mn mx \<le> mx"
proof -
  let ?n = "of_int (mx - mn + 1) :: rat"
  have n: "0 < ?n" using assms(3) by simp
  have lo: "0 \<le> r * ?n" using assms(1) n by simp
  have hi: "r * ?n < ?n" using assms(2) n by simp
  have "of_int mn \<le> r * ?n + of_int mn" using lo by simp
  then have 1: "mn \<le> \<lfloor>r * ?n + of_int mn\<rfloor>" by (simp add: le_floor_iff)
  have "r * ?n + of_int mn < of_int (mx + 1)" using hi by simp
  then have "\<lfloor>r * ?n + of_int mn\<rfloor> < mx + 1" by (simp only: floor_less_iff)
  then show ?thesis using 1 by (simp add: getRandomDelay_exact_def)
qed

text \<open>
  Rounding in this model, on sums a JavaScript engine can be asked for: \<open>1 + 2 ** -53\<close>
  is \<open>1\<close>, a tie that goes to the even significand, and \<open>1000 + (1 - 2 ** -52)\<close> is
  \<open>1001\<close>.
\<close>

lemma dbl_add_rounds:
  "dbl_val (dbl_add (dbl_of_int 1) (Dbl 1 (- 53))) = 1
   \<and> dbl_val (dbl_add (dbl_of_int 1000) draw_near_one) = 1001"
proof -
  have "dbl_add (dbl_of_int 1) (Dbl 1 (- 53)) = Dbl (2 ^ 52) (- 52)" by code_simp
  moreover have "dbl_add (dbl_of_int 1000) draw_near_one = Dbl (1001 * 2 ^ 43) (- 43)"
    by code_simp
  ultimately show ?thesis by (simp add: dbl_val_def)
qed

text \<open>
  With the range that \<open>generateAndSaveWallets\<close> writes into the configuration, 100 to
  1000, the same draw stays in the range.
\<close>

lemma getRandomDelay_written_range:
  "getRandomDelay draw_near_one (dbl_of_int 100) (dbl_of_int 1000) = 1000"
  by code_simp

text \<open>
  C8. The claim: for \<open>0 \<le> min \<le> max\<close>, \<open>getRandomDelay(min, max)\<close> is an integer of
  \<open>[min, max]\<close>. In exact arithmetic it is (\<open>getRandomDelay_exact_in_range\<close>). In
  doubles it is not: with \<open>min = max = 1000\<close> and the draw \<open>1 - 2 ^ - 52\<close>, which is in
  \<open>[0, 1)\<close>, the sum \<open>1001 - 2 ^ - 52\<close> is not a double, its nearest double is \<open>1001\<close>,
  and the function returns \<open>1001\<close>.
\<close>

theorem getRandomDelay_exceeds_max:
  "0 \<le> dbl_val draw_near_one \<and> dbl_val draw_near_one < 1
   \<and> getRandomDelay draw_near_one (dbl_of_int 1000) (dbl_of_int 1000) = 1001"
proof -
  have "0 \<le> dbl_val draw_near_one \<and> dbl_val draw_near_one < 1"
    by (simp add: draw_near_one_def dbl_val_def)
  moreover have "getRandomDelay draw_near_one (dbl_of_int 1000) (dbl_of_int 1000) = 1001"
    by code_simp
  ultimately show ?thesis by simp
qed

section \<open>Consolidate\<close>

text \<open>
  C10. \<open>getWalletBalance\<close> has no error result: a failed query is logged and becomes the
  balance 0. \<open>consolidateWallet\<close> then does what it does for a wallet whose balance is 0:
  it logs the same "No balance" line, builds and submits no transfer, and returns 0.
\<close>

theorem getWalletBalance_failure_is_zero_balance:
  assumes "\<not> falsy (env (walletIndex + 1))"
    and "fromSecretKey io = Inr walletKeypair"
    and "getBalance io = Inl error"
  shows "getWalletBalance (getBalance io) =
           (0, [Console_error ''Error fetching balance: ${error.message}'' [S (message error)]])
       \<and> consolidateWallet env io walletIndex baseWalletPublicKey =
           (0, [Console_error ''Error fetching balance: ${error.message}'' [S (message error)],
                Console_log ''Skipping wallet ${walletIndex + 1} - No balance''
                  [I (walletIndex + 1)]])
       \<and> consolidateWallet env (io\<lparr>getBalance := Inr 0\<rparr>) walletIndex baseWalletPublicKey =
           (0, [Console_log ''Skipping wallet ${walletIndex + 1} - No balance''
                  [I (walletIndex + 1)]])"
  using assms by (simp add: getWalletBalance_def consolidateWallet_def)

theorem getWalletBalance_failure_witness:
  "\<not> falsy (Some ''secret'')
   \<and> fromSecretKey (io_ok\<lparr>getBalance := Inl rpc_down\<rparr>) = Inr ''Wallet1Pubkey''
   \<and> getBalance (io_ok\<lparr>getBalance := Inl rpc_down\<rparr>) = Inl rpc_down
   \<and> consolidateWallet (\<lambda>n. Some ''secret'') (io_ok\<lparr>getBalance := Inl rpc_down\<rparr>) 0 ''Base'' =
       (0, [Console_error ''Error fetching balance: ${error.message}''
              [S ''fetch failed''],
            Console_log ''Skipping wallet ${walletIndex + 1} - No balance'' [I 1]])"
proof -
  have h1: "\<not> falsy ((\<lambda>n::int. Some ''secret'') (0 + 1))" by (simp add: falsy_def)
  have h2: "fromSecretKey (io_ok\<lparr>getBalance := Inl rpc_down\<rparr>) = Inr ''Wallet1Pubkey''"
    by (simp add: io_ok_def)
  have h3: "getBalance (io_ok\<lparr>getBalance := Inl rpc_down\<rparr>) = Inl rpc_down" by simp
  show ?thesis
    using getWalletBalance_failure_is_zero_balance [OF h1 h2 h3, where baseWalletPublicKey = "''Base''"] h1 h2 h3
    by (simp add: rpc_down_def)
qed

lemma resolve_outer_try_scope:
  "resolve outer_try_scope ''baseWalletPublicKey'' =
     Inl (JsError ''ReferenceError'' ''baseWalletPublicKey is not defined'')"
  by (simp add: resolve_def outer_try_scope_def module_scope_def)

lemma resolve_inner_try_scope:
  "resolve (inner_try_scope pk) ''baseWalletPublicKey'' = Inr (Pubkey pk)"
  by (simp add: resolve_def inner_try_scope_def)

text \<open>
  C9. With a non-empty \<open>BASE_WALLET_ADDRESS\<close> that \<open>new PublicKey\<close> accepts, a confirmed
  prompt and at least one wallet in the configuration, what \<open>main\<close> prints after the
  prompt is the "Starting" line and the line of the top-level \<open>catch\<close>, with the
  \<open>ReferenceError\<close> raised where the first iteration evaluates \<open>baseWalletPublicKey\<close>.
  No line of \<open>consolidateWallet\<close> is in the run, no transfer, no submission and no
  total.
\<close>

theorem consolidate_main_aborts_first_iteration:
  assumes "\<not> falsy (BASE_WALLET_ADDRESS w)"
    and "new_PublicKey_base w = Inr pk"
    and "prompt_confirm w = Inr True"
    and "wallets walletConfig \<noteq> []"
  shows "consolidate_main w walletConfig =
     [Console_log ''Starting consolidation process...'' [],
      Console_error ''An error occurred:''
        [E (JsError ''ReferenceError'' ''baseWalletPublicKey is not defined'')]]"
  using assms
  by (simp add: consolidate_main_def consolidate_loop.simps [of _ _ _ 0]
      resolve_outer_try_scope)

theorem consolidate_main_aborts_witness:
  "\<not> falsy (BASE_WALLET_ADDRESS consolidate_world_mixed)
   \<and> new_PublicKey_base consolidate_world_mixed = Inr ''Base''
   \<and> prompt_confirm consolidate_world_mixed = Inr True
   \<and> wallets config2 \<noteq> []
   \<and> consolidate_main consolidate_world_mixed config2 =
     [Console_log ''Starting consolidation process...'' [],
      Console_error ''An error occurred:''
        [E (JsError ''ReferenceError'' ''baseWalletPublicKey is not defined'')]]"
proof -
  have h1: "\<not> falsy (BASE_WALLET_ADDRESS consolidate_world_mixed)"
    by (simp add: consolidate_world_mixed_def falsy_def)
  have h2: "new_PublicKey_base consolidate_world_mixed = Inr ''Base''"
    by (simp add: consolidate_world_mixed_def)
  have h3: "prompt_confirm consolidate_world_mixed = Inr True"
    by (simp add: consolidate_world_mixed_def)
  have h4: "wallets config2 \<noteq> []" by (simp add: config2_def)
  show ?thesis
    using consolidate_main_aborts_first_iteration [OF h1 h2 h3 h4] h1 h2 h3 h4 by simp
qed




section \<open>The batch loops\<close>







lemma fundWallets_main_reports_total:
  assumes "\<not> falsy (FUNDING_WALLET_PRIVATE_KEY w)"
    and "prompt_answers w = Inr (n, sol)"
    and "generateAndSaveWallets fs (generate w) (now w) n = (Inr (ws, keys), fs', ev)"
    and "fromSecretKey_funding w = Inr fw"
  shows "last (snd (fundWallets_main w fs)) =
           Console_log ''Total SOL distributed: ${totalFunded.toFixed(4)} SOL''
             [N (fst (fund_loop (wallet_answers w) fw sol 0 ws 0))]"
  using assms by (simp add: fundWallets_main_def case_prod_beta)






section \<open>The order of a batch\<close>




text \<open>
  When the names of the configuration are distinct, the index the sell loop passes to
  \<open>executeSellWithWallet\<close> is the position of the wallet in the configuration, so each
  wallet is sold with its own private key.
\<close>

lemma findIndex_distinct_names:
  "distinct (map name ws) \<Longrightarrow> i < length ws
     \<Longrightarrow> findIndex (\<lambda>w'. name w' = name (ws ! i)) ws = int i"
proof (induction ws arbitrary: i)
  case Nil
  then show ?case by simp
next
  case (Cons a ws)
  show ?case
  proof (cases i)
    case 0
    then show ?thesis by simp
  next
    case (Suc j)
    with Cons.prems have j: "j < length ws" and d: "distinct (map name ws)"
      and na: "name a \<notin> name ` set ws" by auto
    from j na have "name a \<noteq> name (ws ! j)" by (metis imageI nth_mem)
    with Cons.IH [OF d j] Suc show ?thesis by (simp add: Let_def)
  qed
qed



section \<open>The per-wallet trade\<close>

text \<open>
  C3. The claim: every per-wallet failure, a quote response that is not 2xx among them, is
  surfaced in the console output. With a private key that decodes and a quote response
  of status 500, \<open>executeBuyWithWallet\<close> prints the "Executing buy" line, sends the
  request and returns \<open>undefined\<close>: the \<open>if (response.status === 200)\<close> of line 129 has no
  \<open>else\<close>, and the \<open>catch\<close> is not entered. \<open>executeSellWithWallet\<close> does the same
  (line 167). Nothing in the output tells the failure from a run still in progress.
\<close>

theorem non200_quote_is_silent:
  "executeBuyWithWallet (\<lambda>n. Some ''secret'') (io_ok\<lparr>fetch_trade_local := Inr 500\<rparr>) 0 ''Mint''
     wallet1 params =
     (None,
      [Console_log ''Executing buy with ${walletInfo.name} (${walletInfo.amount} SOL)...''
         [S ''Wallet 1'', N 1],
       Fetch_trade_local
         [\<lparr>req_publicKey = ''Wallet1Pubkey'', req_action = ''buy'', req_tokenMetadata = None,
           req_mint = ''Mint'', req_denominatedInSol = ''true'', req_amount = 1,
           req_slippage = 10, req_priorityFee = 1 / 100000, req_pool = ''pump''\<rparr>]])
   \<and> executeSellWithWallet (\<lambda>n. Some ''secret'') (io_ok\<lparr>fetch_trade_local := Inr 500\<rparr>) 0
       ''Mint'' wallet1 params =
     (None,
      [Console_log ''Executing sell with ${walletInfo.name}...'' [S ''Wallet 1''],
       Console_log ''Current Balance: '' [N 8],
       Fetch_trade_local
         [\<lparr>req_publicKey = ''Wallet1Pubkey'', req_action = ''sell'', req_tokenMetadata = None,
           req_mint = ''Mint'', req_denominatedInSol = ''false'', req_amount = 8,
           req_slippage = 10, req_priorityFee = 1 / 100000, req_pool = ''pump''\<rparr>]])"
  by (simp add: executeBuyWithWallet_def executeSellWithWallet_def io_ok_def wallet1_def
      params_def falsy_def Let_def)



section \<open>Token creation\<close>

text \<open>
  What the flow does abort on: a rejected upload request, an upload body that is not JSON,
  a rejected quote request, a quote response whose status is not 200. Then nothing is
  signed and nothing is submitted.
\<close>

lemma createTokenBundle_aborts_before_signing:
  assumes "isl (fetch_ipfs w)
           \<or> (\<exists>r. fetch_ipfs w = Inr r \<and> isl (upload_json r))
           \<or> isl (fetch_quote w)
           \<or> (\<exists>q. fetch_quote w = Inr q \<and> quote_status q \<noteq> 200)"
  shows "isl (fst (createTokenBundle w td))
       \<and> (\<forall>e \<in> set (snd (createTokenBundle w td)).
             (\<forall>t s. e \<noteq> Tx_sign t s) \<and> (\<forall>b. e \<noteq> Fetch_jito b))"
  using assms
  by (auto simp: createTokenBundle_def createTokenBundle_catch_def Let_def
      split: sum.splits)


section \<open>The backup store\<close>





end
